theory Spec2Isabelle
  imports Main "HOL-Library.AList"
begin

section \<open>Python values\<close>

text \<open>
  The values that travel through the library: what \<^verbatim>\<open>json.loads\<close> can return
  (\<^verbatim>\<open>None\<close>, booleans, integers, strings, lists, dictionaries with string keys) and
  objects that carry an attribute dictionary (\<^verbatim>\<open>__dict__\<close>). A dictionary is an
  association list in insertion order. Strings are lists of 8-bit characters, read as the
  code points 0 to 255. Floating-point numbers are not part of the model.
\<close>

datatype pyval =
    PNone
  | PBool bool
  | PInt int
  | PStr string
  | PList "pyval list"
  | PDict "(string \<times> pyval) list"
  | PObj "(string \<times> pyval) list"

text \<open>
  The exceptions the code can meet. \<open>Unmodelled\<close> is not a Python exception: it marks a
  JSON text that holds a value outside \<^typ>\<open>pyval\<close> (a float, or a string escape beyond
  code point 255). The model says nothing about what Python does with such a text; where
  the model answers with a value or with \<^verbatim>\<open>ValueError\<close>, it has met no such value.
\<close>

datatype error = ValueError | AttributeError | TypeError | Unmodelled

text \<open>Truth value testing, as \<^verbatim>\<open>if x\<close> does it.\<close>

fun truthy :: "pyval \<Rightarrow> bool" where
  "truthy PNone = False"
| "truthy (PBool b) = b"
| "truthy (PInt i) = (i \<noteq> 0)"
| "truthy (PStr s) = (s \<noteq> [])"
| "truthy (PList xs) = (xs \<noteq> [])"
| "truthy (PDict d) = (d \<noteq> [])"
| "truthy (PObj a) = True"

text \<open>\<^verbatim>\<open>d.get(key, default)\<close> on a dictionary.\<close>

definition dict_get :: "(string \<times> pyval) list \<Rightarrow> string \<Rightarrow> pyval \<Rightarrow> pyval" where
  "dict_get d key dflt = (case map_of d key of None \<Rightarrow> dflt | Some v \<Rightarrow> v)"

text \<open>
  \<^verbatim>\<open>x.get(key, default)\<close> on any value: only a dictionary has the method, every other
  value raises \<^verbatim>\<open>AttributeError\<close>.
\<close>

fun py_get :: "pyval \<Rightarrow> string \<Rightarrow> pyval \<Rightarrow> error + pyval" where
  "py_get (PDict d) key dflt = Inr (dict_get d key dflt)"
| "py_get _ key dflt = Inl AttributeError"

text \<open>
  \<^verbatim>\<open>x[key] = value\<close> with a string key: a dictionary replaces the value of an
  existing key in place and appends a new key; every other value raises \<^verbatim>\<open>TypeError\<close>.
\<close>

fun py_setitem :: "pyval \<Rightarrow> string \<Rightarrow> pyval \<Rightarrow> error + pyval" where
  "py_setitem (PDict d) key v = Inr (PDict (AList.update key v d))"
| "py_setitem _ key v = Inl TypeError"

section \<open>Constants (const.py)\<close>

definition TOPIC_PREFIX :: string where "TOPIC_PREFIX = ''cloudapp/QBUSMQTTGW''"

definition KEY_OUTPUT_ACTION :: string where "KEY_OUTPUT_ACTION = ''action''"
definition KEY_OUTPUT_ID :: string where "KEY_OUTPUT_ID = ''id''"
definition KEY_OUTPUT_PROPERTIES :: string where "KEY_OUTPUT_PROPERTIES = ''properties''"
definition KEY_OUTPUT_TYPE :: string where "KEY_OUTPUT_TYPE = ''type''"

definition KEY_PROPERTIES_AUTHKEY :: string where "KEY_PROPERTIES_AUTHKEY = ''authKey''"
definition KEY_PROPERTIES_CURRENT_TEMPERATURE :: string where
  "KEY_PROPERTIES_CURRENT_TEMPERATURE = ''currTemp''"
definition KEY_PROPERTIES_REGIME :: string where "KEY_PROPERTIES_REGIME = ''currRegime''"
definition KEY_PROPERTIES_SET_TEMPERATURE :: string where
  "KEY_PROPERTIES_SET_TEMPERATURE = ''setTemp''"
definition KEY_PROPERTIES_SHUTTER_POSITION :: string where
  "KEY_PROPERTIES_SHUTTER_POSITION = ''shutterPosition''"
definition KEY_PROPERTIES_SLAT_POSITION :: string where
  "KEY_PROPERTIES_SLAT_POSITION = ''slatPosition''"
definition KEY_PROPERTIES_STATE :: string where "KEY_PROPERTIES_STATE = ''state''"
definition KEY_PROPERTIES_VALUE :: string where "KEY_PROPERTIES_VALUE = ''value''"

section \<open>State models (state.py)\<close>

text \<open>The members of \<^verbatim>\<open>StateType\<close> and \<^verbatim>\<open>StateAction\<close> are strings.\<close>

definition StateType_ACTION :: string where "StateType_ACTION = ''action''"
definition StateType_EVENT :: string where "StateType_EVENT = ''event''"
definition StateType_STATE :: string where "StateType_STATE = ''state''"
definition StateAction_ACTIVATE :: string where "StateAction_ACTIVATE = ''activate''"
definition StateAction_ACTIVE :: string where "StateAction_ACTIVE = ''active''"

text \<open>
  The four attributes of \<^verbatim>\<open>QbusMqttState\<close>, in the order \<^verbatim>\<open>__init__\<close> assigns them.
  Python does not enforce the annotations, so each attribute holds any value.
\<close>

record QbusMqttState =
  id_attr :: pyval
  type_attr :: pyval
  action :: pyval
  properties :: pyval

text \<open>
  \<^verbatim>\<open>QbusMqttState.__init__(data, id=, type=, action=)\<close>. An argument left out is
  \<^verbatim>\<open>None\<close>. The four \<^verbatim>\<open>data.get\<close> calls run in the source's order; the first one
  that raises ends the construction.
\<close>

definition QbusMqttState_init ::
  "pyval \<Rightarrow> pyval \<Rightarrow> pyval \<Rightarrow> pyval \<Rightarrow> error + QbusMqttState" where
  "QbusMqttState_init data id_arg type_arg action_arg =
    (let self0 = \<lparr>id_attr = PStr '''', type_attr = PStr '''', action = PNone, properties = PNone\<rparr>;
         from_data =
           (if data \<noteq> PNone then
              (case py_get data KEY_OUTPUT_ID (PStr '''') of Inl e \<Rightarrow> Inl e | Inr i \<Rightarrow>
               case py_get data KEY_OUTPUT_TYPE (PStr '''') of Inl e \<Rightarrow> Inl e | Inr t \<Rightarrow>
               case py_get data KEY_OUTPUT_ACTION PNone of Inl e \<Rightarrow> Inl e | Inr a \<Rightarrow>
               case py_get data KEY_OUTPUT_PROPERTIES PNone of Inl e \<Rightarrow> Inl e | Inr p \<Rightarrow>
                 Inr \<lparr>id_attr = i, type_attr = t, action = a, properties = p\<rparr>)
            else Inr self0)
     in case from_data of
          Inl e \<Rightarrow> Inl e
        | Inr self1 \<Rightarrow>
            (let self2 = (if id_arg \<noteq> PNone then self1\<lparr>id_attr := id_arg\<rparr> else self1);
                 self3 = (if type_arg \<noteq> PNone then self2\<lparr>type_attr := type_arg\<rparr> else self2);
                 self4 = (if action_arg \<noteq> PNone then self3\<lparr>action := action_arg\<rparr> else self3)
             in Inr self4))"

text \<open>\<^verbatim>\<open>read_property\<close>: the dictionary lookup runs only when \<^verbatim>\<open>properties\<close> is truthy.\<close>

definition read_property :: "QbusMqttState \<Rightarrow> string \<Rightarrow> pyval \<Rightarrow> error + pyval" where
  "read_property self key dflt =
     (if truthy (properties self) then py_get (properties self) key dflt else Inr dflt)"

text \<open>\<^verbatim>\<open>write_property\<close>: an absent map becomes the empty map first.\<close>

definition write_property :: "QbusMqttState \<Rightarrow> string \<Rightarrow> pyval \<Rightarrow> error + QbusMqttState" where
  "write_property self key v =
     (let self1 = (if properties self = PNone then self\<lparr>properties := PDict []\<rparr> else self)
      in case py_setitem (properties self1) key v of
           Inl e \<Rightarrow> Inl e
         | Inr p \<Rightarrow> Inr (self1\<lparr>properties := p\<rparr>))"

text \<open>
  The variants add no storage: each constructor passes \<^verbatim>\<open>data\<close>, \<^verbatim>\<open>id\<close> and
  \<^verbatim>\<open>type\<close> on to the base class and has no \<^verbatim>\<open>action\<close> argument.
\<close>

definition QbusMqttOnOffState_init :: "pyval \<Rightarrow> pyval \<Rightarrow> pyval \<Rightarrow> error + QbusMqttState" where
  "QbusMqttOnOffState_init data id_arg type_arg = QbusMqttState_init data id_arg type_arg PNone"

definition QbusMqttAnalogState_init :: "pyval \<Rightarrow> pyval \<Rightarrow> pyval \<Rightarrow> error + QbusMqttState" where
  "QbusMqttAnalogState_init data id_arg type_arg = QbusMqttState_init data id_arg type_arg PNone"

definition QbusMqttShutterState_init :: "pyval \<Rightarrow> pyval \<Rightarrow> pyval \<Rightarrow> error + QbusMqttState" where
  "QbusMqttShutterState_init data id_arg type_arg = QbusMqttState_init data id_arg type_arg PNone"

definition QbusMqttThermoState_init :: "pyval \<Rightarrow> pyval \<Rightarrow> pyval \<Rightarrow> error + QbusMqttState" where
  "QbusMqttThermoState_init data id_arg type_arg = QbusMqttState_init data id_arg type_arg PNone"

text \<open>On/off output.\<close>

definition read_value :: "QbusMqttState \<Rightarrow> error + pyval" where
  "read_value self = read_property self KEY_PROPERTIES_VALUE (PBool False)"

definition write_value :: "QbusMqttState \<Rightarrow> bool \<Rightarrow> error + QbusMqttState" where
  "write_value self on = write_property self KEY_PROPERTIES_VALUE (PBool on)"

text \<open>Analog output.\<close>

definition read_percentage :: "QbusMqttState \<Rightarrow> error + pyval" where
  "read_percentage self = read_property self KEY_PROPERTIES_VALUE (PInt 0)"

definition write_percentage :: "QbusMqttState \<Rightarrow> pyval \<Rightarrow> error + QbusMqttState" where
  "write_percentage self percentage = write_property self KEY_PROPERTIES_VALUE percentage"

definition write_on_off :: "QbusMqttState \<Rightarrow> bool \<Rightarrow> QbusMqttState" where
  "write_on_off self on = self\<lparr>action := PStr (if on then ''on'' else ''off'')\<rparr>"

text \<open>Shutter output.\<close>

definition read_state :: "QbusMqttState \<Rightarrow> error + pyval" where
  "read_state self = read_property self KEY_PROPERTIES_STATE PNone"

definition write_state :: "QbusMqttState \<Rightarrow> string \<Rightarrow> error + QbusMqttState" where
  "write_state self state = write_property self KEY_PROPERTIES_STATE (PStr state)"

definition read_position :: "QbusMqttState \<Rightarrow> error + pyval" where
  "read_position self = read_property self KEY_PROPERTIES_SHUTTER_POSITION PNone"

definition write_position :: "QbusMqttState \<Rightarrow> int \<Rightarrow> error + QbusMqttState" where
  "write_position self percentage =
     write_property self KEY_PROPERTIES_SHUTTER_POSITION (PInt percentage)"

definition read_slat_position :: "QbusMqttState \<Rightarrow> error + pyval" where
  "read_slat_position self = read_property self KEY_PROPERTIES_SLAT_POSITION PNone"

definition write_slat_position :: "QbusMqttState \<Rightarrow> int \<Rightarrow> error + QbusMqttState" where
  "write_slat_position self percentage =
     write_property self KEY_PROPERTIES_SLAT_POSITION (PInt percentage)"

text \<open>Thermo output.\<close>

definition read_current_temperature :: "QbusMqttState \<Rightarrow> error + pyval" where
  "read_current_temperature self = read_property self KEY_PROPERTIES_CURRENT_TEMPERATURE PNone"

definition read_set_temperature :: "QbusMqttState \<Rightarrow> error + pyval" where
  "read_set_temperature self = read_property self KEY_PROPERTIES_SET_TEMPERATURE PNone"

definition write_set_temperature :: "QbusMqttState \<Rightarrow> pyval \<Rightarrow> error + QbusMqttState" where
  "write_set_temperature self temperature =
     write_property self KEY_PROPERTIES_SET_TEMPERATURE temperature"

definition read_regime :: "QbusMqttState \<Rightarrow> error + pyval" where
  "read_regime self = read_property self KEY_PROPERTIES_REGIME PNone"

definition write_regime :: "QbusMqttState \<Rightarrow> string \<Rightarrow> error + QbusMqttState" where
  "write_regime self regime = write_property self KEY_PROPERTIES_REGIME (PStr regime)"

section \<open>Topic factory (factory.py)\<close>

text \<open>Each method formats its arguments into a fixed template; the prefix is passed explicitly.\<close>

definition get_get_config_topic :: "string \<Rightarrow> string" where
  "get_get_config_topic prefix = prefix @ ''/getConfig''"

definition get_config_topic :: "string \<Rightarrow> string" where
  "get_config_topic prefix = prefix @ ''/config''"

definition get_get_state_topic :: "string \<Rightarrow> string" where
  "get_get_state_topic prefix = prefix @ ''/getState''"

definition get_device_state_topic :: "string \<Rightarrow> string \<Rightarrow> string" where
  "get_device_state_topic device_id prefix = prefix @ ''/'' @ device_id @ ''/state''"

definition get_device_command_topic :: "string \<Rightarrow> string \<Rightarrow> string" where
  "get_device_command_topic device_id prefix = prefix @ ''/'' @ device_id @ ''/setState''"

definition get_output_command_topic :: "string \<Rightarrow> string \<Rightarrow> string \<Rightarrow> string" where
  "get_output_command_topic device_id entity_id prefix =
     prefix @ ''/'' @ device_id @ ''/'' @ entity_id @ ''/setState''"

definition get_output_state_topic :: "string \<Rightarrow> string \<Rightarrow> string \<Rightarrow> string" where
  "get_output_state_topic device_id entity_id prefix =
     prefix @ ''/'' @ device_id @ ''/'' @ entity_id @ ''/state''"

section \<open>JSON encoding (json.dumps with IgnoreNoneJsonEncoder)\<close>

text \<open>
  \<^verbatim>\<open>IgnoreNoneJsonEncoder.default\<close>: an object with an attribute dictionary is replaced
  by the dictionary of its attributes that are not \<^verbatim>\<open>None\<close>; anything else goes to the
  base class, which raises \<^verbatim>\<open>TypeError\<close>. The encoder calls the hook only for values it
  cannot encode itself, that is, for objects.
\<close>

definition IgnoreNoneJsonEncoder_default :: "pyval \<Rightarrow> error + pyval" where
  "IgnoreNoneJsonEncoder_default obj =
     (case obj of
        PObj attrs \<Rightarrow> Inr (PDict (filter (\<lambda>(k, v). v \<noteq> PNone) attrs))
      | _ \<Rightarrow> Inl TypeError)"

text \<open>
  String encoding with \<^verbatim>\<open>ensure_ascii\<close>: quote, backslash and the five short escapes,
  printable ASCII as it is, every other character as a lower-case escape of four
  hexadecimal digits.
\<close>

definition hex_digit :: "nat \<Rightarrow> char" where
  "hex_digit n = (if n < 10 then char_of (48 + n) else char_of (87 + n))"

definition escape_char :: "char \<Rightarrow> string" where
  "escape_char c =
     (if c = CHR 0x22 then [CHR 0x5C, CHR 0x22]
      else if c = CHR 0x5C then [CHR 0x5C, CHR 0x5C]
      else if c = CHR 0x0A then [CHR 0x5C, CHR ''n'']
      else if c = CHR 0x0D then [CHR 0x5C, CHR ''r'']
      else if c = CHR 0x09 then [CHR 0x5C, CHR ''t'']
      else if c = CHR 0x08 then [CHR 0x5C, CHR ''b'']
      else if c = CHR 0x0C then [CHR 0x5C, CHR ''f'']
      else if 32 \<le> (of_char c :: nat) \<and> (of_char c :: nat) \<le> 126 then [c]
      else [CHR 0x5C, CHR ''u'', CHR ''0'', CHR ''0'',
            hex_digit ((of_char c :: nat) div 16), hex_digit ((of_char c :: nat) mod 16)])"

definition encode_basestring_ascii :: "string \<Rightarrow> string" where
  "encode_basestring_ascii s = [CHR 0x22] @ concat (map escape_char s) @ [CHR 0x22]"

text \<open>Decimal digits of an integer, as \<^verbatim>\<open>int.__repr__\<close> prints them.\<close>

fun nat_repr :: "nat \<Rightarrow> string" where
  "nat_repr n =
     (if n < 10 then [char_of (48 + n)] else nat_repr (n div 10) @ [char_of (48 + n mod 10)])"

declare nat_repr.simps [simp del]

definition int_repr :: "int \<Rightarrow> string" where
  "int_repr i = (if i < 0 then CHR ''-'' # nat_repr (nat (- i)) else nat_repr (nat i))"

text \<open>\<^verbatim>\<open>sep.join(parts)\<close>.\<close>

fun join :: "string \<Rightarrow> string list \<Rightarrow> string" where
  "join sep [] = []"
| "join sep [x] = x"
| "join sep (x # y # ys) = x @ sep @ join sep (y # ys)"

text \<open>
  The encoder with the default separators \<^verbatim>\<open>', '\<close> and \<^verbatim>\<open>': '\<close>. Lists and
  dictionaries are encoded member by member, with no filtering; an object is encoded as
  the dictionary that \<^verbatim>\<open>default\<close> returns for it.
\<close>

fun json_dumps :: "pyval \<Rightarrow> string" where
  "json_dumps PNone = ''null''"
| "json_dumps (PBool b) = (if b then ''true'' else ''false'')"
| "json_dumps (PInt i) = int_repr i"
| "json_dumps (PStr s) = encode_basestring_ascii s"
| "json_dumps (PList xs) = ''['' @ join '', '' (map json_dumps xs) @ '']''"
| "json_dumps (PDict d) =
     ''{'' @ join '', '' (map (\<lambda>(k, v). encode_basestring_ascii k @ '': '' @ json_dumps v) d)
       @ ''}''"
| "json_dumps (PObj attrs) =
     ''{'' @ join '', '' (map (\<lambda>(k, v). encode_basestring_ascii k @ '': '' @ json_dumps v)
                            (filter (\<lambda>(k, v). v \<noteq> PNone) attrs))
       @ ''}''"

section \<open>JSON decoding (json.loads)\<close>

text \<open>
  The scanner of the standard decoder, on the text after leading whitespace. Every
  syntax error is \<^verbatim>\<open>ValueError\<close> (\<^verbatim>\<open>JSONDecodeError\<close> is a subclass). The
  interpreter's limits on nesting depth and on the number of digits of an integer are not
  modelled.
\<close>

definition is_ws :: "char \<Rightarrow> bool" where
  "is_ws c = (c = CHR '' '' \<or> c = CHR 0x09 \<or> c = CHR 0x0A \<or> c = CHR 0x0D)"

definition skip_ws :: "string \<Rightarrow> string" where
  "skip_ws s = dropWhile is_ws s"

definition is_digit :: "char \<Rightarrow> bool" where
  "is_digit c = (48 \<le> (of_char c :: nat) \<and> (of_char c :: nat) \<le> 57)"

definition hex_value :: "char \<Rightarrow> nat option" where
  "hex_value c =
     (let n = (of_char c :: nat) in
      if 48 \<le> n \<and> n \<le> 57 then Some (n - 48)
      else if 97 \<le> n \<and> n \<le> 102 then Some (n - 87)
      else if 65 \<le> n \<and> n \<le> 70 then Some (n - 55)
      else None)"

text \<open>The four hexadecimal digits of a numbered escape.\<close>

definition decode_uXXXX :: "string \<Rightarrow> (nat \<times> string) option" where
  "decode_uXXXX s =
     (case s of
        a # b # c # d # rest \<Rightarrow>
          (case (hex_value a, hex_value b, hex_value c, hex_value d) of
             (Some x3, Some x2, Some x1, Some x0) \<Rightarrow>
               Some (((x3 * 16 + x2) * 16 + x1) * 16 + x0, rest)
           | _ \<Rightarrow> None)
      | _ \<Rightarrow> None)"

definition BACKSLASH :: "char \<Rightarrow> char option" where
  "BACKSLASH e =
     (if e = CHR 0x22 then Some (CHR 0x22)
      else if e = CHR 0x5C then Some (CHR 0x5C)
      else if e = CHR ''/'' then Some (CHR ''/'')
      else if e = CHR ''b'' then Some (CHR 0x08)
      else if e = CHR ''f'' then Some (CHR 0x0C)
      else if e = CHR ''n'' then Some (CHR 0x0A)
      else if e = CHR ''r'' then Some (CHR 0x0D)
      else if e = CHR ''t'' then Some (CHR 0x09)
      else None)"

fun prepend :: "char \<Rightarrow> error + (string \<times> string) \<Rightarrow> error + (string \<times> string)" where
  "prepend c (Inl e) = Inl e"
| "prepend c (Inr (s, rest)) = Inr (c # s, rest)"

text \<open>
  \<^verbatim>\<open>scanstring\<close> in strict mode, on the text after the opening quote: it returns the
  decoded string and the text after the closing quote. An escape above code point 255
  has no value in the model.
\<close>

function scanstring :: "string \<Rightarrow> error + (string \<times> string)" where
  "scanstring [] = Inl ValueError"
| "scanstring (c # cs) =
     (if c = CHR 0x22 then Inr ([], cs)
      else if c = CHR 0x5C then
        (case cs of
           [] \<Rightarrow> Inl ValueError
         | e # cs' \<Rightarrow>
             if e = CHR ''u'' then
               (case decode_uXXXX cs' of
                  None \<Rightarrow> Inl ValueError
                | Some (n, rest) \<Rightarrow>
                    if n < 256 then prepend (char_of n) (scanstring rest) else Inl Unmodelled)
             else
               (case BACKSLASH e of
                  None \<Rightarrow> Inl ValueError
                | Some ch \<Rightarrow> prepend ch (scanstring cs')))
      else if (of_char c :: nat) < 32 then Inl ValueError
      else prepend c (scanstring cs))"
  by pat_completeness auto
termination
  by (relation "measure length") (auto simp: decode_uXXXX_def split: list.splits option.splits)

text \<open>
  Numbers: an optional minus sign, then a single zero or a digit sequence without a
  leading zero, then an optional fraction (a dot and digits) and an optional exponent.
  A match with a fraction or an exponent is a float, which has no value in the model;
  \<open>None\<close> says that nothing matches.
\<close>

definition nat_of_digits :: "string \<Rightarrow> nat" where
  "nat_of_digits ds = foldl (\<lambda>a c. 10 * a + ((of_char c :: nat) - 48)) 0 ds"

definition has_frac :: "string \<Rightarrow> bool" where
  "has_frac s = (case s of c # d # _ \<Rightarrow> c = CHR ''.'' \<and> is_digit d | _ \<Rightarrow> False)"

definition has_exp :: "string \<Rightarrow> bool" where
  "has_exp s =
     (case s of
        e # r \<Rightarrow>
          (e = CHR ''e'' \<or> e = CHR ''E'') \<and>
          (case r of
             [] \<Rightarrow> False
           | x # r' \<Rightarrow>
               is_digit x \<or>
               ((x = CHR ''+'' \<or> x = CHR ''-'') \<and>
                (case r' of [] \<Rightarrow> False | d # _ \<Rightarrow> is_digit d)))
      | [] \<Rightarrow> False)"

definition match_number :: "string \<Rightarrow> (error + (pyval \<times> string)) option" where
  "match_number s =
     (let neg = (case s of [] \<Rightarrow> False | c # _ \<Rightarrow> c = CHR ''-'');
          s1 = (if neg then tl s else s)
      in case s1 of
           [] \<Rightarrow> None
         | c # r \<Rightarrow>
             if \<not> is_digit c then None
             else
               (let ds = (if c = CHR ''0'' then [c] else takeWhile is_digit s1);
                    rest = (if c = CHR ''0'' then r else dropWhile is_digit s1)
                in if has_frac rest \<or> has_exp rest then Some (Inl Unmodelled)
                   else Some (Inr (PInt (if neg then - int (nat_of_digits ds)
                                         else int (nat_of_digits ds)), rest))))"

definition starts_with :: "string \<Rightarrow> string \<Rightarrow> bool" where
  "starts_with p s = (take (length p) s = p)"

text \<open>\<^verbatim>\<open>dict(pairs)\<close>: a repeated key keeps its first position and takes the last value.\<close>

definition dict_of_pairs :: "(string \<times> pyval) list \<Rightarrow> (string \<times> pyval) list" where
  "dict_of_pairs pairs = foldl (\<lambda>d (k, v). AList.update k v d) [] pairs"

text \<open>The scanners consume text; the recursion below terminates for that reason.\<close>

lemma prepend_Inr: "prepend c x = Inr (k, r) \<Longrightarrow> \<exists>k'. x = Inr (k', r)"
  by (cases x) auto

lemma scanstring_shorter: "scanstring s = Inr (k, r) \<Longrightarrow> length r < length s"
proof (induction s arbitrary: k r rule: scanstring.induct)
  case 1
  then show ?case by simp
next
  case (2 c cs)
  show ?case
  proof (cases "c = CHR 0x22")
    case True
    with 2(4) show ?thesis by auto
  next
    case nq: False
    show ?thesis
    proof (cases "c = CHR 0x5C")
      case False
      with nq 2(4) obtain k' where "scanstring cs = Inr (k', r)"
        by (auto split: if_splits dest: prepend_Inr)
      from 2(3)[OF nq False _ this] 2(4) nq False show ?thesis
        by (auto split: if_splits)
    next
      case True
      show ?thesis
      proof (cases cs)
        case Nil
        with True nq 2(4) show ?thesis by simp
      next
        case (Cons e cs')
        show ?thesis
        proof (cases "e = CHR ''u''")
          case u: True
          with Cons True nq 2(4) have
            "\<exists>n rest k'. decode_uXXXX cs' = Some (n, rest) \<and> n < 256 \<and>
               scanstring rest = Inr (k', r)"
            by (auto split: option.splits if_splits dest: prepend_Inr)
          then obtain n rest k' where
            d: "decode_uXXXX cs' = Some (n, rest)" and n: "n < 256" and
            s: "scanstring rest = Inr (k', r)"
            by blast
          from d have "length rest \<le> length cs'"
            by (auto simp: decode_uXXXX_def split: list.splits option.splits)
          with 2(1)[OF nq True Cons u _ _ n s] d Cons show ?thesis by auto
        next
          case False
          with Cons True nq 2(4) have
            "\<exists>ch k'. BACKSLASH e = Some ch \<and> scanstring cs' = Inr (k', r)"
            by (auto split: option.splits if_splits dest: prepend_Inr)
          then obtain ch k' where
            b: "BACKSLASH e = Some ch" and s: "scanstring cs' = Inr (k', r)"
            by blast
          from 2(2)[OF nq True Cons False b s] Cons show ?thesis by simp
        qed
      qed
    qed
  qed
qed

lemma length_skip_ws: "length (skip_ws s) \<le> length s"
  by (simp add: skip_ws_def length_dropWhile_le)

lemma skip_ws_Cons_shorter: "skip_ws s = c # r \<Longrightarrow> length r < length s"
  using length_skip_ws [of s] by simp

lemma skip_ws_lt: "length x < n \<Longrightarrow> length (skip_ws x) < n"
  using length_skip_ws [of x] by linarith

lemma skip_ws_lt2: "length x < n \<Longrightarrow> 2 * length (skip_ws x) < Suc (2 * n)"
  using length_skip_ws [of x] by linarith

text \<open>
  \<^verbatim>\<open>scan_once\<close> reads one value and returns it with the text that follows;
  \<^verbatim>\<open>JSONArray\<close> and \<^verbatim>\<open>JSONObject\<close> loop over the members. \<open>JSONArray_loop\<close> starts
  at the first element, \<open>JSONObject_loop\<close> after the opening quote of a key. The tests
  \<open>length rest < length s\<close> are always true, since a value has at least one character;
  they are there for the termination proof.
\<close>

function scan_once :: "string \<Rightarrow> error + (pyval \<times> string)"
  and JSONArray_loop :: "string \<Rightarrow> error + (pyval list \<times> string)"
  and JSONObject_loop :: "string \<Rightarrow> error + ((string \<times> pyval) list \<times> string)"
where
  "scan_once s =
     (case s of
        [] \<Rightarrow> Inl ValueError
      | c # cs \<Rightarrow>
          if c = CHR 0x22 then
            (case scanstring cs of Inl e \<Rightarrow> Inl e | Inr (str, rest) \<Rightarrow> Inr (PStr str, rest))
          else if c = CHR ''{'' then
            (case skip_ws cs of
               [] \<Rightarrow> Inl ValueError
             | q # r \<Rightarrow>
                 if q = CHR ''}'' then Inr (PDict [], r)
                 else if q = CHR 0x22 then
                   (case JSONObject_loop r of
                      Inl e \<Rightarrow> Inl e
                    | Inr (pairs, rest) \<Rightarrow> Inr (PDict (dict_of_pairs pairs), rest))
                 else Inl ValueError)
          else if c = CHR ''['' then
            (case skip_ws cs of
               [] \<Rightarrow> Inl ValueError
             | q # r \<Rightarrow>
                 if q = CHR '']'' then Inr (PList [], r)
                 else
                   (case JSONArray_loop (q # r) of
                      Inl e \<Rightarrow> Inl e
                    | Inr (values, rest) \<Rightarrow> Inr (PList values, rest)))
          else if starts_with ''null'' s then Inr (PNone, drop 4 s)
          else if starts_with ''true'' s then Inr (PBool True, drop 4 s)
          else if starts_with ''false'' s then Inr (PBool False, drop 5 s)
          else
            (case match_number s of
               Some r \<Rightarrow> r
             | None \<Rightarrow>
                 if starts_with ''NaN'' s \<or> starts_with ''Infinity'' s
                    \<or> starts_with ''-Infinity'' s
                 then Inl Unmodelled
                 else Inl ValueError))"
| "JSONArray_loop s =
     (case scan_once s of
        Inl e \<Rightarrow> Inl e
      | Inr (v, rest) \<Rightarrow>
          if \<not> length rest < length s then Inl ValueError
          else
            (case skip_ws rest of
               [] \<Rightarrow> Inl ValueError
             | c # rest' \<Rightarrow>
                 if c = CHR '']'' then Inr ([v], rest')
                 else if c = CHR '','' then
                   (case JSONArray_loop (skip_ws rest') of
                      Inl e \<Rightarrow> Inl e
                    | Inr (values, rest'') \<Rightarrow> Inr (v # values, rest''))
                 else Inl ValueError))"
| "JSONObject_loop s =
     (case scanstring s of
        Inl e \<Rightarrow> Inl e
      | Inr (key, r1) \<Rightarrow>
          (case skip_ws r1 of
             [] \<Rightarrow> Inl ValueError
           | c # r2 \<Rightarrow>
               if c \<noteq> CHR '':'' then Inl ValueError
               else
                 (case scan_once (skip_ws r2) of
                    Inl e \<Rightarrow> Inl e
                  | Inr (v, r3) \<Rightarrow>
                      if \<not> length r3 < length s then Inl ValueError
                      else
                        (case skip_ws r3 of
                           [] \<Rightarrow> Inl ValueError
                         | c' # r4 \<Rightarrow>
                             if c' = CHR ''}'' then Inr ([(key, v)], r4)
                             else if c' \<noteq> CHR '','' then Inl ValueError
                             else
                               (case skip_ws r4 of
                                  [] \<Rightarrow> Inl ValueError
                                | q # r5 \<Rightarrow>
                                    if q \<noteq> CHR 0x22 then Inl ValueError
                                    else
                                      (case JSONObject_loop r5 of
                                         Inl e \<Rightarrow> Inl e
                                       | Inr (pairs, r6) \<Rightarrow>
                                           Inr ((key, v) # pairs, r6)))))))"
  by pat_completeness auto
termination
  apply (relation "measure (\<lambda>x. case x of Inl s \<Rightarrow> 2 * length s
                                  | Inr (Inl s) \<Rightarrow> 2 * length s + 1
                                  | Inr (Inr s) \<Rightarrow> 2 * length s + 1)")
        apply (auto dest!: skip_ws_Cons_shorter scanstring_shorter simp: skip_ws_lt skip_ws_lt2)
  done

declare scan_once.simps [simp del] JSONArray_loop.simps [simp del] JSONObject_loop.simps [simp del]

text \<open>\<^verbatim>\<open>json.loads\<close>: one value between optional whitespace, and nothing after it.\<close>

definition json_loads :: "string \<Rightarrow> error + pyval" where
  "json_loads s =
     (case scan_once (skip_ws s) of
        Inl e \<Rightarrow> Inl e
      | Inr (v, rest) \<Rightarrow> if skip_ws rest = [] then Inr v else Inl ValueError)"

section \<open>Message factory (factory.py)\<close>

text \<open>A record of the logger: its level and the formatted message.\<close>

datatype log_record = LogWarning string | LogError string

text \<open>
  A class as \<^verbatim>\<open>deserialize\<close> uses it: its \<^verbatim>\<open>__name__\<close> and the call
  \<^verbatim>\<open>state_cls(data)\<close> with one positional argument.
\<close>

record 'a pyclass =
  cls_name :: string
  cls_call :: "pyval \<Rightarrow> error + 'a"

definition QbusMqttState_cls :: "QbusMqttState pyclass" where
  "QbusMqttState_cls =
     \<lparr>cls_name = ''QbusMqttState'',
      cls_call = (\<lambda>data. QbusMqttState_init data PNone PNone PNone)\<rparr>"

definition QbusMqttOnOffState_cls :: "QbusMqttState pyclass" where
  "QbusMqttOnOffState_cls =
     \<lparr>cls_name = ''QbusMqttOnOffState'',
      cls_call = (\<lambda>data. QbusMqttOnOffState_init data PNone PNone)\<rparr>"

definition QbusMqttAnalogState_cls :: "QbusMqttState pyclass" where
  "QbusMqttAnalogState_cls =
     \<lparr>cls_name = ''QbusMqttAnalogState'',
      cls_call = (\<lambda>data. QbusMqttAnalogState_init data PNone PNone)\<rparr>"

definition QbusMqttShutterState_cls :: "QbusMqttState pyclass" where
  "QbusMqttShutterState_cls =
     \<lparr>cls_name = ''QbusMqttShutterState'',
      cls_call = (\<lambda>data. QbusMqttShutterState_init data PNone PNone)\<rparr>"

definition QbusMqttThermoState_cls :: "QbusMqttState pyclass" where
  "QbusMqttThermoState_cls =
     \<lparr>cls_name = ''QbusMqttThermoState'',
      cls_call = (\<lambda>data. QbusMqttThermoState_init data PNone PNone)\<rparr>"

text \<open>The attribute dictionary of a state object, in the order of assignment.\<close>

definition state_obj :: "QbusMqttState \<Rightarrow> pyval" where
  "state_obj self =
     PObj [(''id'', id_attr self), (''type'', type_attr self),
           (''action'', action self), (''properties'', properties self)]"

definition serialize :: "pyval \<Rightarrow> string" where
  "serialize obj = json_dumps obj"

text \<open>
  \<^verbatim>\<open>deserialize\<close>: the payload is \<^verbatim>\<open>None\<close> or a text. Only \<^verbatim>\<open>ValueError\<close> is
  caught; the call of the class is outside the \<^verbatim>\<open>try\<close>. The result is the list of log
  records written and either the exception that leaves the method or its return value.
\<close>

definition deserialize ::
  "'a pyclass \<Rightarrow> string option \<Rightarrow> log_record list \<times> (error + 'a option)" where
  "deserialize state_cls payload =
     (case payload of
        None \<Rightarrow> ([LogWarning (''Empty state payload for '' @ cls_name state_cls)], Inr None)
      | Some p \<Rightarrow>
          (case json_loads p of
             Inl e \<Rightarrow>
               if e = ValueError
               then ([LogError (''Invalid state payload for '' @ cls_name state_cls @ '': '' @ p)],
                     Inr None)
               else ([], Inl e)
           | Inr data \<Rightarrow>
               (case cls_call state_cls data of
                  Inl e \<Rightarrow> ([], Inl e)
                | Inr obj \<Rightarrow> ([], Inr (Some obj)))))"

text \<open>
  \<^verbatim>\<open>parse_discovery\<close>. The class \<^verbatim>\<open>QbusDiscovery\<close> is defined in discovery.py;
  the method uses its constructor and its \<^verbatim>\<open>devices\<close> attribute, which are taken as
  parameters here.
\<close>

definition parse_discovery ::
  "'d pyclass \<Rightarrow> ('d \<Rightarrow> 'v list) \<Rightarrow> string option \<Rightarrow> log_record list \<times> (error + 'd option)"
  where
  "parse_discovery QbusDiscovery devices payload =
     (case deserialize QbusDiscovery payload of
        (logs, Inl e) \<Rightarrow> (logs, Inl e)
      | (logs, Inr discovery) \<Rightarrow>
          (case discovery of
             None \<Rightarrow> (logs, Inr discovery)
           | Some d \<Rightarrow>
               if length (devices d) = 0
               then (logs @ [LogError (''Incomplete discovery payload: '' @
                                (case payload of None \<Rightarrow> ''None'' | Some p \<Rightarrow> p))],
                     Inr None)
               else (logs, Inr discovery)))"

definition parse_output_state ::
  "'a pyclass \<Rightarrow> string option \<Rightarrow> log_record list \<times> (error + 'a option)" where
  "parse_output_state cls payload = deserialize cls payload"

record QbusMqttRequestMessage =
  topic :: string
  payload :: string

text \<open>
  Modelled from the spec: the Device of discovery.py, of which the factory reads only
  the attribute \<^verbatim>\<open>id\<close>.
\<close>

record QbusMqttDevice =
  device_id :: string

definition create_device_activate_request ::
  "QbusMqttDevice \<Rightarrow> string \<Rightarrow> error + QbusMqttRequestMessage" where
  "create_device_activate_request device prefix =
     (case QbusMqttState_init PNone (PStr (device_id device)) (PStr StateType_ACTION)
             (PStr StateAction_ACTIVATE) of
        Inl e \<Rightarrow> Inl e
      | Inr state \<Rightarrow>
          (case write_property state KEY_PROPERTIES_AUTHKEY (PStr ''ubielite'') of
             Inl e \<Rightarrow> Inl e
           | Inr state' \<Rightarrow>
               Inr \<lparr>topic = get_device_command_topic (device_id device) prefix,
                    payload = serialize (state_obj state')\<rparr>))"

text \<open>
  Modelled from the spec: the Discovery of discovery.py, of which the spec fixes only
  that it holds \<^verbatim>\<open>devices\<close>, a sequence read from the key of that name. It serves
  as a concrete class for \<open>parse_discovery\<close>.
\<close>

record QbusDiscovery =
  devices :: "pyval list"

definition QbusDiscovery_cls :: "QbusDiscovery pyclass" where
  "QbusDiscovery_cls =
     \<lparr>cls_name = ''QbusDiscovery'',
      cls_call = (\<lambda>data.
        case py_get data ''devices'' (PList []) of
          Inl e \<Rightarrow> Inl e
        | Inr (PList ds) \<Rightarrow> Inr \<lparr>devices = ds\<rparr>
        | Inr _ \<Rightarrow> Inl TypeError)\<rparr>"

section \<open>Predicates used in the statements\<close>

text \<open>
  A value as JSON has it: no objects, and no dictionary with a repeated key (which a
  Python dictionary cannot have).
\<close>

fun json_value :: "pyval \<Rightarrow> bool" where
  "json_value PNone = True"
| "json_value (PBool b) = True"
| "json_value (PInt i) = True"
| "json_value (PStr s) = True"
| "json_value (PList xs) = (\<forall>x \<in> set xs. json_value x)"
| "json_value (PDict d) = (distinct (map fst d) \<and> (\<forall>x \<in> set d. json_value (snd x)))"
| "json_value (PObj a) = False"

text \<open>A \<^verbatim>\<open>null\<close> somewhere in a decoded document.\<close>

fun has_null :: "pyval \<Rightarrow> bool" where
  "has_null PNone = True"
| "has_null (PBool b) = False"
| "has_null (PInt i) = False"
| "has_null (PStr s) = False"
| "has_null (PList xs) = (\<exists>x \<in> set xs. has_null x)"
| "has_null (PDict d) = (\<exists>x \<in> set d. has_null (snd x))"
| "has_null (PObj a) = (\<exists>x \<in> set a. has_null (snd x))"

definition is_str :: "pyval \<Rightarrow> bool" where
  "is_str v = (case v of PStr s \<Rightarrow> True | _ \<Rightarrow> False)"

text \<open>
  The reading of the spec for the typed accessors: the value stored under a key of the
  \<^verbatim>\<open>properties\<close> map of a mapping, and the default when the map or the key is absent.
\<close>

definition stored_or_default :: "(string \<times> pyval) list \<Rightarrow> string \<Rightarrow> pyval \<Rightarrow> pyval" where
  "stored_or_default d key dflt =
     (case map_of d ''properties'' of
        Some (PDict p) \<Rightarrow> (case map_of p key of Some v \<Rightarrow> v | None \<Rightarrow> dflt)
      | _ \<Rightarrow> dflt)"

text \<open>
  The \<^verbatim>\<open>properties\<close> entry of a mapping is missing, a map, or a value that tests
  false (\<^verbatim>\<open>None\<close>, \<^verbatim>\<open>0\<close>, \<^verbatim>\<open>False\<close>, an empty string or list).
\<close>

definition properties_readable :: "(string \<times> pyval) list \<Rightarrow> bool" where
  "properties_readable d =
     (case map_of d ''properties'' of
        None \<Rightarrow> True
      | Some v \<Rightarrow> (case v of PDict p \<Rightarrow> True | _ \<Rightarrow> \<not> truthy v))"

text \<open>Auxiliary notions for the proofs about the encoder and the decoder.\<close>

definition join_tail :: "string \<Rightarrow> string list \<Rightarrow> string" where
  "join_tail sep xs = (if xs = [] then [] else sep @ join sep xs)"

definition json_dumps_item :: "string \<times> pyval \<Rightarrow> string" where
  "json_dumps_item = (\<lambda>(k, v). encode_basestring_ascii k @ '': '' @ json_dumps v)"

text \<open>What can follow a value inside a document the encoder wrote.\<close>

definition follow_ok :: "string \<Rightarrow> bool" where
  "follow_ok rest =
     (case rest of [] \<Rightarrow> True | c # _ \<Rightarrow> c = CHR '','' \<or> c = CHR '']'' \<or> c = CHR ''}'')"

text \<open>The decoder reads the encoding of \<open>v\<close> back, whatever follows it.\<close>

definition scans :: "pyval \<Rightarrow> bool" where
  "scans v = (\<forall>rest. follow_ok rest \<longrightarrow> scan_once (json_dumps v @ rest) = Inr (v, rest))"

section \<open>The decoder reads back what the encoder writes\<close>

lemma hex_value_hex_digit: "n < 16 \<Longrightarrow> hex_value (hex_digit n) = Some n"
  by (auto simp: hex_value_def hex_digit_def Let_def)

lemma of_char_lt_256: "(of_char c :: nat) < 256"
  by (metis of_char_mod_256 mod_less_divisor zero_less_numeral)

lemma decode_escape:
  "decode_uXXXX (CHR ''0'' # CHR ''0'' # hex_digit ((of_char c :: nat) div 16) #
      hex_digit ((of_char c :: nat) mod 16) # t) = Some (of_char c, t)"
proof -
  have "(of_char c :: nat) div 16 < 16"
    using of_char_lt_256 [of c] by arith
  then have hi: "hex_value (hex_digit ((of_char c :: nat) div 16)) = Some (of_char c div 16)"
    by (rule hex_value_hex_digit)
  have lo: "hex_value (hex_digit ((of_char c :: nat) mod 16)) = Some (of_char c mod 16)"
    by (rule hex_value_hex_digit) simp
  have zero: "hex_value (CHR ''0'') = Some 0"
    by (simp add: hex_value_def)
  show ?thesis
    by (simp add: decode_uXXXX_def hi lo zero)
qed

lemma scanstring_escape_char: "scanstring (escape_char c @ t) = prepend c (scanstring t)"
proof -
  consider (spec) "c \<in> {CHR 0x22, CHR 0x5C, CHR 0x0A, CHR 0x0D, CHR 0x09, CHR 0x08, CHR 0x0C}"
    | (plain) "c \<notin> {CHR 0x22, CHR 0x5C, CHR 0x0A, CHR 0x0D, CHR 0x09, CHR 0x08, CHR 0x0C}"
        "32 \<le> (of_char c :: nat) \<and> (of_char c :: nat) \<le> 126"
    | (esc) "c \<notin> {CHR 0x22, CHR 0x5C, CHR 0x0A, CHR 0x0D, CHR 0x09, CHR 0x08, CHR 0x0C}"
        "\<not> (32 \<le> (of_char c :: nat) \<and> (of_char c :: nat) \<le> 126)"
    by blast
  then show ?thesis
  proof cases
    case spec
    then show ?thesis
      by (auto simp: escape_char_def BACKSLASH_def)
  next
    case plain
    then show ?thesis
      by (auto simp: escape_char_def)
  next
    case esc
    then show ?thesis
      using of_char_lt_256 [of c] by (simp add: escape_char_def decode_escape)
  qed
qed

lemma scanstring_encoded:
  "scanstring (concat (map escape_char s) @ CHR 0x22 # rest) = Inr (s, rest)"
  by (induction s) (simp_all add: scanstring_escape_char)

lemma char_of_48: "char_of (48 :: nat) = CHR ''0''"
proof -
  have "(of_char (char_of (48 :: nat)) :: nat) = of_char (CHR ''0'')"
    by simp
  then show ?thesis
    by (simp only: of_char_eq_iff)
qed

lemma is_digit_char_of: "d < 10 \<Longrightarrow> is_digit (char_of (48 + d :: nat))"
  by (simp add: is_digit_def)

lemma digit_value_char_of: "d < 10 \<Longrightarrow> (of_char (char_of (48 + d :: nat)) :: nat) - 48 = d"
  by simp

lemma nat_repr_digits: "\<forall>c \<in> set (nat_repr n). is_digit c"
proof (induction n rule: nat_repr.induct)
  case (1 n)
  show ?case
  proof (cases "n < 10")
    case True
    then show ?thesis
      by (subst nat_repr.simps) (simp add: is_digit_char_of)
  next
    case False
    with 1 show ?thesis
      by (subst nat_repr.simps) (simp add: is_digit_char_of)
  qed
qed

lemma nat_repr_not_Nil: "nat_repr n \<noteq> []"
  by (subst nat_repr.simps) simp

lemma nat_of_digits_snoc:
  "nat_of_digits (ds @ [c]) = 10 * nat_of_digits ds + ((of_char c :: nat) - 48)"
  by (simp add: nat_of_digits_def)

lemma nat_of_digits_nat_repr: "nat_of_digits (nat_repr n) = n"
proof (induction n rule: nat_repr.induct)
  case (1 n)
  show ?case
  proof (cases "n < 10")
    case True
    then show ?thesis
      by (subst nat_repr.simps) (simp add: nat_of_digits_def)
  next
    case False
    then have "nat_of_digits (nat_repr n) =
        10 * nat_of_digits (nat_repr (n div 10)) + ((of_char (char_of (48 + n mod 10)) :: nat) - 48)"
      by (subst nat_repr.simps) (simp add: nat_of_digits_snoc)
    also have "\<dots> = 10 * (n div 10) + n mod 10"
      using 1 False by simp
    finally show ?thesis by simp
  qed
qed

lemma hd_nat_repr_zero: "(hd (nat_repr n) = CHR ''0'') = (n = 0)"
proof (induction n rule: nat_repr.induct)
  case (1 n)
  show ?case
  proof (cases "n < 10")
    case True
    have "(char_of (48 + n) = CHR ''0'') = (n = 0)"
    proof
      assume "char_of (48 + n) = CHR ''0''"
      then have "(of_char (char_of (48 + n)) :: nat) = of_char (CHR ''0'')" by simp
      with True show "n = 0" by simp
    next
      assume "n = 0"
      then show "char_of (48 + n) = CHR ''0''" by (simp add: char_of_48)
    qed
    with True show ?thesis
      by (subst nat_repr.simps) simp
  next
    case False
    then have "hd (nat_repr n) = hd (nat_repr (n div 10))"
      by (subst nat_repr.simps) (simp add: nat_repr_not_Nil)
    with 1 False show ?thesis by simp
  qed
qed

lemma match_number_nat_repr:
  assumes "follow_ok rest"
  shows "match_number (nat_repr n @ rest) = Some (Inr (PInt (int n), rest))"
proof -
  obtain c r where cr: "nat_repr n = c # r"
    using nat_repr_not_Nil [of n] by (cases "nat_repr n") auto
  have dig: "\<forall>x \<in> set (nat_repr n). is_digit x"
    by (rule nat_repr_digits)
  then have c: "is_digit c" "c \<noteq> CHR ''-''"
    using cr by (auto simp: is_digit_def)
  have tw: "takeWhile is_digit (nat_repr n @ rest) = nat_repr n"
    using dig assms
    by (auto simp: takeWhile_append2 follow_ok_def is_digit_def split: list.splits)
  have dw: "dropWhile is_digit (nat_repr n @ rest) = rest"
    using dig assms
    by (auto simp: dropWhile_append2 follow_ok_def is_digit_def split: list.splits)
  have nf: "\<not> has_frac rest" "\<not> has_exp rest"
    using assms by (auto simp: follow_ok_def has_frac_def has_exp_def split: list.splits)
  show ?thesis
  proof (cases "n = 0")
    case True
    then have "nat_repr n = ''0''"
      by (subst nat_repr.simps) (simp add: char_of_48)
    with True nf show ?thesis
      by (simp add: match_number_def is_digit_def nat_of_digits_def)
  next
    case False
    with hd_nat_repr_zero [of n] cr have "c \<noteq> CHR ''0''" by simp
    with c nf tw dw cr show ?thesis
      using nat_of_digits_nat_repr [of n]
      by (simp add: match_number_def Let_def)
  qed
qed

lemma match_number_int_repr:
  assumes "follow_ok rest"
  shows "match_number (int_repr i @ rest) = Some (Inr (PInt i, rest))"
proof (cases "i < 0")
  case False
  then show ?thesis
    using match_number_nat_repr [OF assms, of "nat i"] by (simp add: int_repr_def)
next
  case True
  define m where "m = nat (- i)"
  have m: "m \<noteq> 0" "int m = - i" using True by (simp_all add: m_def)
  obtain c r where cr: "nat_repr m = c # r"
    using nat_repr_not_Nil [of m] by (cases "nat_repr m") auto
  have dig: "\<forall>x \<in> set (nat_repr m). is_digit x"
    by (rule nat_repr_digits)
  then have c: "is_digit c"
    using cr by auto
  have c0: "c \<noteq> CHR ''0''"
    using hd_nat_repr_zero [of m] cr m by simp
  have tw: "takeWhile is_digit (nat_repr m @ rest) = nat_repr m"
    using dig assms
    by (auto simp: takeWhile_append2 follow_ok_def is_digit_def split: list.splits)
  have dw: "dropWhile is_digit (nat_repr m @ rest) = rest"
    using dig assms
    by (auto simp: dropWhile_append2 follow_ok_def is_digit_def split: list.splits)
  have nf: "\<not> has_frac rest" "\<not> has_exp rest"
    using assms by (auto simp: follow_ok_def has_frac_def has_exp_def split: list.splits)
  have "match_number (CHR ''-'' # nat_repr m @ rest) = Some (Inr (PInt (- int m), rest))"
    using c c0 nf tw dw cr nat_of_digits_nat_repr [of m]
    by (simp add: match_number_def Let_def)
  with True m show ?thesis
    by (simp add: int_repr_def m_def)
qed

lemma join_Cons: "join sep (x # xs) = x @ join_tail sep xs"
  by (cases xs) (simp_all add: join_tail_def)

lemma join_tail_simps:
  "join_tail sep [] = []"
  "join_tail sep (x # xs) = sep @ x @ join_tail sep xs"
  by (simp_all add: join_tail_def join_Cons del: join.simps)

lemma int_repr_Cons: "\<exists>c t. int_repr i = c # t \<and> (c = CHR ''-'' \<or> is_digit c)"
proof (cases "i < 0")
  case True
  then show ?thesis by (simp add: int_repr_def)
next
  case False
  obtain c t where "nat_repr (nat i) = c # t"
    using nat_repr_not_Nil [of "nat i"] by (cases "nat_repr (nat i)") auto
  with False nat_repr_digits [of "nat i"] show ?thesis
    by (auto simp: int_repr_def)
qed

lemma json_dumps_Cons: "\<exists>c t. json_dumps v = c # t \<and> \<not> is_ws c \<and> c \<noteq> CHR '']''"
proof (cases v)
  case (PInt i)
  then show ?thesis
    using int_repr_Cons [of i] by (auto simp: is_ws_def is_digit_def)
qed (auto simp: is_ws_def encode_basestring_ascii_def)

lemma skip_ws_dumps: "skip_ws (json_dumps v @ t) = json_dumps v @ t"
  using json_dumps_Cons [of v] by (auto simp: skip_ws_def)

lemma skip_ws_space_dumps: "skip_ws (CHR '' '' # json_dumps v @ t) = json_dumps v @ t"
  using json_dumps_Cons [of v] by (auto simp: skip_ws_def is_ws_def)

lemma skip_ws_not_ws: "\<not> is_ws c \<Longrightarrow> skip_ws (c # t) = c # t"
  by (simp add: skip_ws_def)

lemma skip_ws_space: "\<not> is_ws c \<Longrightarrow> skip_ws (CHR '' '' # c # t) = c # t"
  by (simp add: skip_ws_def is_ws_def)

lemma follow_ok_simps:
  "follow_ok []" "follow_ok (CHR '','' # t)" "follow_ok (CHR '']'' # t)" "follow_ok (CHR ''}'' # t)"
  by (simp_all add: follow_ok_def)

lemma scan_once_null: "scan_once (''null'' @ rest) = Inr (PNone, rest)"
  by (simp add: scan_once.simps starts_with_def)

lemma scan_once_bool:
  "scan_once ((if b then ''true'' else ''false'') @ rest) = Inr (PBool b, rest)"
  by (simp add: scan_once.simps starts_with_def)

lemma scan_once_int:
  assumes "follow_ok rest"
  shows "scan_once (int_repr i @ rest) = Inr (PInt i, rest)"
proof -
  obtain c t where ct: "int_repr i = c # t" and c: "c = CHR ''-'' \<or> is_digit c"
    using int_repr_Cons [of i] by blast
  from c have "c \<noteq> CHR 0x22" "c \<noteq> CHR ''{''" "c \<noteq> CHR ''[''"
    "c \<noteq> CHR ''n''" "c \<noteq> CHR ''t''" "c \<noteq> CHR ''f''"
    by (auto simp: is_digit_def)
  then have "scan_once (c # t @ rest) =
      (case match_number (c # t @ rest) of Some r \<Rightarrow> r
       | None \<Rightarrow> if starts_with ''NaN'' (c # t @ rest) \<or> starts_with ''Infinity'' (c # t @ rest)
                     \<or> starts_with ''-Infinity'' (c # t @ rest)
                  then Inl Unmodelled else Inl ValueError)"
    by (simp add: scan_once.simps starts_with_def)
  with match_number_int_repr [OF assms, of i] ct show ?thesis
    by simp
qed

lemma scan_once_str:
  "scan_once (encode_basestring_ascii s @ rest) = Inr (PStr s, rest)"
  by (simp add: scan_once.simps encode_basestring_ascii_def scanstring_encoded)

lemma JSONArray_loop_dumps:
  assumes "\<forall>x \<in> set (x # xs). scans x"
  shows "JSONArray_loop (json_dumps x @ join_tail '', '' (map json_dumps xs)
            @ CHR '']'' # rest) = Inr (x # xs, rest)"
  using assms
proof (induction xs arbitrary: x)
  case Nil
  then have "scan_once (json_dumps x @ CHR '']'' # rest) = Inr (x, CHR '']'' # rest)"
    by (simp add: scans_def follow_ok_simps)
  moreover have "json_dumps x \<noteq> []"
    using json_dumps_Cons [of x] by auto
  ultimately show ?case
    by (subst JSONArray_loop.simps) (simp add: skip_ws_not_ws is_ws_def join_tail_simps)
next
  case (Cons y ys)
  let ?tail = "json_dumps y @ join_tail '', '' (map json_dumps ys) @ CHR '']'' # rest"
  from Cons.prems have "scan_once (json_dumps x @ CHR '','' # CHR '' '' # ?tail)
      = Inr (x, CHR '','' # CHR '' '' # ?tail)"
    by (simp add: scans_def follow_ok_simps)
  moreover have "json_dumps x \<noteq> []"
    using json_dumps_Cons [of x] by auto
  moreover have "JSONArray_loop ?tail = Inr (y # ys, rest)"
    using Cons.IH [of y] Cons.prems by simp
  moreover have "skip_ws (CHR '' '' # ?tail) = ?tail"
    using skip_ws_space_dumps [of y] by simp
  ultimately show ?case
    by (subst JSONArray_loop.simps) (simp add: skip_ws_not_ws is_ws_def join_tail_simps)
qed

lemma JSONObject_loop_dumps:
  assumes "\<forall>x \<in> set (kv # d). scans (snd x)"
  shows "JSONObject_loop (concat (map escape_char (fst kv)) @ CHR 0x22 # '': '' @ json_dumps (snd kv)
            @ join_tail '', '' (map json_dumps_item d)
            @ CHR ''}'' # rest) = Inr (kv # d, rest)"
  using assms
proof (induction d arbitrary: kv)
  case Nil
  obtain k v where kv: "kv = (k, v)" by (cases kv)
  from Nil kv have "scan_once (json_dumps v @ CHR ''}'' # rest) = Inr (v, CHR ''}'' # rest)"
    by (simp add: scans_def follow_ok_simps)
  moreover have "json_dumps v \<noteq> []"
    using json_dumps_Cons [of v] by auto
  ultimately show ?case
    using kv
    by (subst JSONObject_loop.simps)
       (simp add: scanstring_encoded skip_ws_not_ws is_ws_def skip_ws_space_dumps join_tail_simps)
next
  case (Cons kv' d')
  obtain k v where kv: "kv = (k, v)" by (cases kv)
  obtain k' v' where kv': "kv' = (k', v')" by (cases kv')
  let ?next = "concat (map escape_char k') @ CHR 0x22 # '': '' @ json_dumps v'
      @ join_tail '', '' (map json_dumps_item d') @ CHR ''}'' # rest"
  let ?tail = "CHR '','' # CHR '' '' # CHR 0x22 # ?next"
  from Cons.prems kv have "scan_once (json_dumps v @ ?tail) = Inr (v, ?tail)"
    by (simp add: scans_def follow_ok_simps)
  moreover have "json_dumps v \<noteq> []"
    using json_dumps_Cons [of v] by auto
  moreover have "JSONObject_loop ?next = Inr (kv' # d', rest)"
    using Cons.IH [of kv'] Cons.prems kv' by simp
  ultimately show ?case
    using kv kv'
    by (subst JSONObject_loop.simps)
       (simp add: scanstring_encoded skip_ws_not_ws skip_ws_space is_ws_def skip_ws_space_dumps
          join_tail_simps json_dumps_item_def encode_basestring_ascii_def)
qed

lemma update_fresh: "k \<notin> fst ` set d \<Longrightarrow> AList.update k v d = d @ [(k, v)]"
  by (induction d) auto

lemma foldl_update_distinct:
  "distinct (map fst (acc @ d)) \<Longrightarrow>
     foldl (\<lambda>d (k, v). AList.update k v d) acc d = acc @ d"
proof (induction d arbitrary: acc)
  case Nil
  then show ?case by simp
next
  case (Cons kv d)
  obtain k v where kv: "kv = (k, v)" by (cases kv)
  with Cons.prems have "k \<notin> fst ` set acc" by auto
  then have "AList.update k v acc = acc @ [(k, v)]"
    by (rule update_fresh)
  with Cons.IH [of "acc @ [(k, v)]"] Cons.prems kv show ?case by simp
qed

lemma dict_of_pairs_distinct: "distinct (map fst d) \<Longrightarrow> dict_of_pairs d = d"
  using foldl_update_distinct [of "[]" d] by (simp add: dict_of_pairs_def)

lemma json_dumps_PDict_text:
  "json_dumps (PDict d) = ''{'' @ join '', '' (map json_dumps_item d) @ ''}''"
  by (simp add: json_dumps_item_def)

lemma scan_once_dumps_aux: "json_value v \<Longrightarrow> scans v"
proof (induction v)
  case PNone
  show ?case by (simp add: scans_def scan_once_null del: append.simps)
next
  case (PBool b)
  show ?case using scan_once_bool [of b] by (simp add: scans_def)
next
  case (PInt i)
  show ?case by (simp add: scans_def scan_once_int)
next
  case (PStr s)
  show ?case by (simp add: scans_def scan_once_str)
next
  case (PList xs)
  then have all: "\<forall>x \<in> set xs. scans x" by simp
  show ?case
  proof (cases xs)
    case Nil
    then show ?thesis
      by (simp add: scans_def scan_once.simps skip_ws_not_ws is_ws_def)
  next
    case (Cons x xs')
    obtain c t where ct: "json_dumps x = c # t" and c: "\<not> is_ws c" "c \<noteq> CHR '']''"
      using json_dumps_Cons [of x] by blast
    show ?thesis
      unfolding scans_def
    proof (intro allI impI)
      fix rest
      let ?body = "json_dumps x @ join_tail '', '' (map json_dumps xs')
          @ CHR '']'' # rest"
      have "JSONArray_loop ?body = Inr (x # xs', rest)"
        using all Cons by (intro JSONArray_loop_dumps) simp
      moreover have "json_dumps (PList xs) @ rest = CHR ''['' # ?body"
        using Cons by (simp add: join_Cons)
      moreover have "skip_ws ?body = ?body"
        using skip_ws_dumps [of x] by simp
      moreover have "?body = c # (t @ join_tail '', '' (map json_dumps xs')
          @ CHR '']'' # rest)"
        using ct by simp
      ultimately show "scan_once (json_dumps (PList xs) @ rest) = Inr (PList xs, rest)"
        using c Cons by (simp add: scan_once.simps del: json_dumps.simps)
    qed
  qed
next
  case (PDict d)
  then have all: "\<forall>x \<in> set d. scans (snd x)"
    by (auto simp: snds.simps)
  from PDict.prems have dist: "distinct (map fst d)" by simp
  show ?case
  proof (cases d)
    case Nil
    then show ?thesis
      by (simp add: scans_def scan_once.simps skip_ws_not_ws is_ws_def dict_of_pairs_def)
  next
    case (Cons kv d')
    show ?thesis
      unfolding scans_def
    proof (intro allI impI)
      fix rest
      let ?body = "concat (map escape_char (fst kv)) @ CHR 0x22 # '': '' @ json_dumps (snd kv)
            @ join_tail '', '' (map json_dumps_item d')
            @ CHR ''}'' # rest"
      have "JSONObject_loop ?body = Inr (kv # d', rest)"
        using all Cons by (intro JSONObject_loop_dumps) simp
      moreover have "json_dumps (PDict d) @ rest = CHR ''{'' # CHR 0x22 # ?body"
        using Cons
        by (cases kv)
           (simp add: json_dumps_PDict_text join_Cons json_dumps_item_def encode_basestring_ascii_def
              del: json_dumps.simps)
      ultimately show "scan_once (json_dumps (PDict d) @ rest) = Inr (PDict d, rest)"
        using Cons dist
        by (simp add: scan_once.simps skip_ws_not_ws is_ws_def dict_of_pairs_distinct
            del: json_dumps.simps)
    qed
  qed
next
  case (PObj a)
  then show ?case by simp
qed

lemma scan_once_dumps:
  "json_value v \<Longrightarrow> follow_ok rest \<Longrightarrow> scan_once (json_dumps v @ rest) = Inr (v, rest)"
  using scan_once_dumps_aux [of v] by (simp add: scans_def)

lemma json_loads_dumps: "json_value v \<Longrightarrow> json_loads (json_dumps v) = Inr v"
  using scan_once_dumps [of v "[]"] skip_ws_dumps [of v "[]"]
  by (simp add: json_loads_def follow_ok_simps skip_ws_def)

section \<open>Collected definitions\<close>

lemmas key_defs =
  KEY_OUTPUT_ACTION_def KEY_OUTPUT_ID_def KEY_OUTPUT_PROPERTIES_def KEY_OUTPUT_TYPE_def
  KEY_PROPERTIES_AUTHKEY_def KEY_PROPERTIES_CURRENT_TEMPERATURE_def KEY_PROPERTIES_REGIME_def
  KEY_PROPERTIES_SET_TEMPERATURE_def KEY_PROPERTIES_SHUTTER_POSITION_def
  KEY_PROPERTIES_SLAT_POSITION_def KEY_PROPERTIES_STATE_def KEY_PROPERTIES_VALUE_def

lemmas variant_init_defs =
  QbusMqttOnOffState_init_def QbusMqttAnalogState_init_def
  QbusMqttShutterState_init_def QbusMqttThermoState_init_def

lemmas accessor_defs =
  read_value_def read_percentage_def read_state_def read_position_def read_slat_position_def
  read_current_temperature_def read_set_temperature_def read_regime_def

lemmas topic_defs =
  get_get_config_topic_def get_config_topic_def get_get_state_topic_def
  get_device_state_topic_def get_device_command_topic_def
  get_output_command_topic_def get_output_state_topic_def

lemmas cls_defs =
  QbusMqttState_cls_def QbusMqttOnOffState_cls_def QbusMqttAnalogState_cls_def
  QbusMqttShutterState_cls_def QbusMqttThermoState_cls_def

section \<open>Topic templates\<close>

text \<open>
  Claim C9. For every prefix \<open>p\<close>, device id \<open>d\<close> and output id \<open>o\<close> the topic factory
  returns the literal templates: \<open>p/getConfig\<close>, \<open>p/config\<close>, \<open>p/getState\<close>,
  \<open>p/d/state\<close>, \<open>p/d/setState\<close>, \<open>p/d/o/setState\<close> and \<open>p/d/o/state\<close>. The output
  command topic of device \<open>D1\<close> and output \<open>O2\<close> under \<open>cloudapp/QBUSMQTTGW\<close> is
  \<open>cloudapp/QBUSMQTTGW/D1/O2/setState\<close>, and the default prefix is \<open>cloudapp/QBUSMQTTGW\<close>.
\<close>

theorem topic_factory_templates:
  "get_get_config_topic p = p @ ''/getConfig'' \<and>
   get_config_topic p = p @ ''/config'' \<and>
   get_get_state_topic p = p @ ''/getState'' \<and>
   get_device_state_topic d p = p @ ''/'' @ d @ ''/state'' \<and>
   get_device_command_topic d p = p @ ''/'' @ d @ ''/setState'' \<and>
   get_output_command_topic d o' p = p @ ''/'' @ d @ ''/'' @ o' @ ''/setState'' \<and>
   get_output_state_topic d o' p = p @ ''/'' @ d @ ''/'' @ o' @ ''/state'' \<and>
   get_output_command_topic ''D1'' ''O2'' ''cloudapp/QBUSMQTTGW'' =
     ''cloudapp/QBUSMQTTGW/D1/O2/setState'' \<and>
   TOPIC_PREFIX = ''cloudapp/QBUSMQTTGW''"
  by (simp add: topic_defs TOPIC_PREFIX_def)

section \<open>Construction from a mapping\<close>

lemma init_dict:
  "QbusMqttState_init (PDict d) i t a =
     Inr \<lparr>id_attr = (if i \<noteq> PNone then i else dict_get d ''id'' (PStr '''')),
          type_attr = (if t \<noteq> PNone then t else dict_get d ''type'' (PStr '''')),
          action = (if a \<noteq> PNone then a else dict_get d ''action'' PNone),
          properties = dict_get d ''properties'' PNone\<rparr>"
  by (simp add: QbusMqttState_init_def key_defs Let_def)

lemma init_none:
  "QbusMqttState_init PNone i t a =
     Inr \<lparr>id_attr = (if i \<noteq> PNone then i else PStr ''''),
          type_attr = (if t \<noteq> PNone then t else PStr ''''),
          action = a,
          properties = PNone\<rparr>"
  by (simp add: QbusMqttState_init_def Let_def)

lemma init_not_mapping:
  "data \<noteq> PNone \<Longrightarrow> \<forall>d. data \<noteq> PDict d \<Longrightarrow> QbusMqttState_init data i t a = Inl AttributeError"
  by (cases data) (simp_all add: QbusMqttState_init_def Let_def)

text \<open>
  Claim C10. When a state (or a variant) is built from a mapping and keyword arguments,
  a keyword argument that is not \<^verbatim>\<open>None\<close> overrides the value taken from the mapping,
  and one that is \<^verbatim>\<open>None\<close> leaves the value of the mapping, or the default, in place.
  The variants have no \<^verbatim>\<open>action\<close> argument: their action is the mapping's.
\<close>

theorem init_keyword_override:
  "QbusMqttState_init (PDict d) i t a =
     Inr \<lparr>id_attr = (if i \<noteq> PNone then i else dict_get d ''id'' (PStr '''')),
          type_attr = (if t \<noteq> PNone then t else dict_get d ''type'' (PStr '''')),
          action = (if a \<noteq> PNone then a else dict_get d ''action'' PNone),
          properties = dict_get d ''properties'' PNone\<rparr> \<and>
   QbusMqttOnOffState_init (PDict d) i t = QbusMqttState_init (PDict d) i t PNone \<and>
   QbusMqttAnalogState_init (PDict d) i t = QbusMqttState_init (PDict d) i t PNone \<and>
   QbusMqttShutterState_init (PDict d) i t = QbusMqttState_init (PDict d) i t PNone \<and>
   QbusMqttThermoState_init (PDict d) i t = QbusMqttState_init (PDict d) i t PNone"
  by (simp add: init_dict variant_init_defs)

theorem init_keyword_override_witness:
  "QbusMqttState_init (PDict [(''id'', PStr ''a''), (''type'', PStr ''state'')])
     (PStr ''b'') PNone (PStr ''on'') =
   Inr \<lparr>id_attr = PStr ''b'', type_attr = PStr ''state'', action = PStr ''on'',
        properties = PNone\<rparr>"
  using init_keyword_override
    [of "[(''id'', PStr ''a''), (''type'', PStr ''state'')]" "PStr ''b''" PNone "PStr ''on''"]
  by (simp add: dict_get_def)

section \<open>Identifier and type of a state\<close>

text \<open>
  Claim C3, as stated, fails: a mapping that holds \<^verbatim>\<open>None\<close> under the key \<^verbatim>\<open>id\<close>
  gives a state whose \<^verbatim>\<open>id\<close> is \<^verbatim>\<open>None\<close>, since the default of \<^verbatim>\<open>get\<close> applies
  to a missing key only. The payload \<^verbatim>\<open>{"id": null}\<close> reaches this case.
\<close>

theorem init_null_id_counterexample:
  \<open>QbusMqttState_init (PDict [(''id'', PNone)]) PNone PNone PNone =
     Inr \<lparr>id_attr = PNone, type_attr = PStr '''', action = PNone, properties = PNone\<rparr> \<and>
   \<not> is_str PNone \<and>
   deserialize QbusMqttState_cls (Some ''{"id": null}'') =
     ([], Inr (Some \<lparr>id_attr = PNone, type_attr = PStr '''', action = PNone,
                      properties = PNone\<rparr>))\<close>
proof -
  have "json_loads [CHR ''{'', CHR 0x22, CHR ''i'', CHR ''d'', CHR 0x22, CHR '':'', CHR '' '',
      CHR ''n'', CHR ''u'', CHR ''l'', CHR ''l'', CHR ''}''] = Inr (PDict [(''id'', PNone)])"
    by code_simp
  then show ?thesis
    by (simp add: init_dict dict_get_def is_str_def deserialize_def QbusMqttState_cls_def)
qed

text \<open>
  Claim C3, amended. For a state (or a variant) built from keyword arguments that are
  strings or left out, and from no mapping or a mapping in which the keys \<^verbatim>\<open>id\<close> and
  \<^verbatim>\<open>type\<close> are missing or map to strings, \<^verbatim>\<open>id\<close> and \<^verbatim>\<open>type\<close> are strings; each
  is the empty string when the key is missing and the keyword is left out.
\<close>

theorem init_id_type_strings:
  assumes "data = PNone \<or>
           (\<exists>d. data = PDict d \<and> (\<forall>v. map_of d ''id'' = Some v \<longrightarrow> is_str v)
                           \<and> (\<forall>v. map_of d ''type'' = Some v \<longrightarrow> is_str v))"
    and "i = PNone \<or> is_str i"
    and "t = PNone \<or> is_str t"
  shows "\<exists>s. QbusMqttState_init data i t a = Inr s \<and>
             is_str (id_attr s) \<and> is_str (type_attr s) \<and>
             (i = PNone \<and> (data = PNone \<or> (\<exists>d. data = PDict d \<and> map_of d ''id'' = None))
                \<longrightarrow> id_attr s = PStr '''') \<and>
             (t = PNone \<and> (data = PNone \<or> (\<exists>d. data = PDict d \<and> map_of d ''type'' = None))
                \<longrightarrow> type_attr s = PStr '''') \<and>
             QbusMqttOnOffState_init data i t = QbusMqttState_init data i t PNone \<and>
             QbusMqttAnalogState_init data i t = QbusMqttState_init data i t PNone \<and>
             QbusMqttShutterState_init data i t = QbusMqttState_init data i t PNone \<and>
             QbusMqttThermoState_init data i t = QbusMqttState_init data i t PNone"
proof (cases "data = PNone")
  case True
  with assms(2,3) show ?thesis
    by (auto simp: init_none is_str_def variant_init_defs)
next
  case False
  with assms(1) obtain d where d: "data = PDict d"
    and di: "\<forall>v. map_of d ''id'' = Some v \<longrightarrow> is_str v"
    and dt: "\<forall>v. map_of d ''type'' = Some v \<longrightarrow> is_str v"
    by blast
  have "is_str (dict_get d ''id'' (PStr ''''))" "is_str (dict_get d ''type'' (PStr ''''))"
    using di dt by (auto simp: dict_get_def is_str_def split: option.splits)
  moreover have "map_of d ''id'' = None \<longrightarrow> dict_get d ''id'' (PStr '''') = PStr ''''"
    "map_of d ''type'' = None \<longrightarrow> dict_get d ''type'' (PStr '''') = PStr ''''"
    by (auto simp: dict_get_def)
  ultimately show ?thesis
    using d assms(2,3) by (auto simp: init_dict variant_init_defs)
qed

theorem init_id_type_strings_witness:
  "QbusMqttState_init (PDict [(''type'', PStr ''state'')]) PNone PNone PNone =
     Inr \<lparr>id_attr = PStr '''', type_attr = PStr ''state'', action = PNone, properties = PNone\<rparr> \<and>
   is_str (PStr '''') \<and> is_str (PStr ''state'') \<and>
   map_of [(''type'', PStr ''state'')] ''id'' = None"
proof -
  have "\<exists>s. QbusMqttState_init (PDict [(''type'', PStr ''state'')]) PNone PNone PNone = Inr s \<and>
    is_str (id_attr s) \<and> is_str (type_attr s) \<and>
    (PNone = PNone \<and> (PDict [(''type'', PStr ''state'')] = PNone \<or>
        (\<exists>d. PDict [(''type'', PStr ''state'')] = PDict d \<and> map_of d ''id'' = None))
       \<longrightarrow> id_attr s = PStr '''') \<and>
    (PNone = PNone \<and> (PDict [(''type'', PStr ''state'')] = PNone \<or>
        (\<exists>d. PDict [(''type'', PStr ''state'')] = PDict d \<and> map_of d ''type'' = None))
       \<longrightarrow> type_attr s = PStr '''') \<and>
    QbusMqttOnOffState_init (PDict [(''type'', PStr ''state'')]) PNone PNone =
      QbusMqttState_init (PDict [(''type'', PStr ''state'')]) PNone PNone PNone \<and>
    QbusMqttAnalogState_init (PDict [(''type'', PStr ''state'')]) PNone PNone =
      QbusMqttState_init (PDict [(''type'', PStr ''state'')]) PNone PNone PNone \<and>
    QbusMqttShutterState_init (PDict [(''type'', PStr ''state'')]) PNone PNone =
      QbusMqttState_init (PDict [(''type'', PStr ''state'')]) PNone PNone PNone \<and>
    QbusMqttThermoState_init (PDict [(''type'', PStr ''state'')]) PNone PNone =
      QbusMqttState_init (PDict [(''type'', PStr ''state'')]) PNone PNone PNone"
    by (rule init_id_type_strings) (simp_all add: is_str_def)
  then show ?thesis
    by (simp add: init_dict dict_get_def is_str_def)
qed

section \<open>Typed accessors\<close>

lemma read_property_dict:
  "properties s = PDict p \<Longrightarrow> read_property s key dflt = Inr (dict_get p key dflt)"
  by (cases p) (simp_all add: read_property_def dict_get_def)

lemma read_property_falsy:
  "\<not> truthy (properties s) \<Longrightarrow> read_property s key dflt = Inr dflt"
  by (simp add: read_property_def)

lemma read_property_raises:
  "truthy (properties s) \<Longrightarrow> \<forall>p. properties s \<noteq> PDict p \<Longrightarrow>
   read_property s key dflt = Inl AttributeError"
  by (cases "properties s") (simp_all add: read_property_def)

text \<open>
  Claim C8, as stated, fails: a mapping may hold under \<^verbatim>\<open>properties\<close> a value that
  is not a map. The constructor stores it as it is, and when it tests true
  \<^verbatim>\<open>read_property\<close> calls \<^verbatim>\<open>get\<close> on it, which raises \<^verbatim>\<open>AttributeError\<close>. The
  payload \<^verbatim>\<open>{"properties": [1]}\<close> decodes to such a mapping.
\<close>

theorem accessor_raises_counterexample:
  \<open>json_loads ''{"properties": [1]}'' = Inr (PDict [(''properties'', PList [PInt 1])]) \<and>
   QbusMqttOnOffState_init (PDict [(''properties'', PList [PInt 1])]) PNone PNone =
     Inr \<lparr>id_attr = PStr '''', type_attr = PStr '''', action = PNone,
          properties = PList [PInt 1]\<rparr> \<and>
   read_value \<lparr>id_attr = PStr '''', type_attr = PStr '''', action = PNone,
               properties = PList [PInt 1]\<rparr> = Inl AttributeError \<and>
   read_regime \<lparr>id_attr = PStr '''', type_attr = PStr '''', action = PNone,
                properties = PList [PInt 1]\<rparr> = Inl AttributeError\<close>
proof -
  have dec: \<open>json_loads ''{"properties": [1]}'' =
      Inr (PDict [(''properties'', PList [PInt 1])])\<close>
    by code_simp
  show ?thesis
    by (simp only: dec)
       (simp add: variant_init_defs init_dict dict_get_def accessor_defs read_property_def)
qed

text \<open>
  Claim C8, amended. For every variant built from a mapping whose \<^verbatim>\<open>properties\<close>
  entry is missing, a map, or a value that tests false (such as \<^verbatim>\<open>None\<close>), each typed
  accessor returns the value stored at its key, and the declared default when the key or
  the map is absent: \<^verbatim>\<open>False\<close> for the on/off value, \<^verbatim>\<open>0\<close> for the analog
  percentage, \<^verbatim>\<open>None\<close> for the shutter and thermo readings. No accessor raises.
\<close>

theorem accessors_stored_or_default:
  assumes "properties_readable d"
  shows
    "(\<exists>s. QbusMqttOnOffState_init (PDict d) i t = Inr s \<and>
          read_value s = Inr (stored_or_default d ''value'' (PBool False))) \<and>
     (\<exists>s. QbusMqttAnalogState_init (PDict d) i t = Inr s \<and>
          read_percentage s = Inr (stored_or_default d ''value'' (PInt 0))) \<and>
     (\<exists>s. QbusMqttShutterState_init (PDict d) i t = Inr s \<and>
          read_state s = Inr (stored_or_default d ''state'' PNone) \<and>
          read_position s = Inr (stored_or_default d ''shutterPosition'' PNone) \<and>
          read_slat_position s = Inr (stored_or_default d ''slatPosition'' PNone)) \<and>
     (\<exists>s. QbusMqttThermoState_init (PDict d) i t = Inr s \<and>
          read_current_temperature s = Inr (stored_or_default d ''currTemp'' PNone) \<and>
          read_set_temperature s = Inr (stored_or_default d ''setTemp'' PNone) \<and>
          read_regime s = Inr (stored_or_default d ''currRegime'' PNone))"
proof -
  let ?s = "\<lparr>id_attr = (if i \<noteq> PNone then i else dict_get d ''id'' (PStr '''')),
             type_attr = (if t \<noteq> PNone then t else dict_get d ''type'' (PStr '''')),
             action = dict_get d ''action'' PNone,
             properties = dict_get d ''properties'' PNone\<rparr>"
  have init: "QbusMqttState_init (PDict d) i t PNone = Inr ?s"
    by (simp add: init_dict)
  have rd: "read_property ?s key dflt = Inr (stored_or_default d key dflt)" for key dflt
  proof (cases "map_of d ''properties''")
    case None
    then show ?thesis
      by (simp add: read_property_falsy dict_get_def stored_or_default_def)
  next
    case (Some v)
    show ?thesis
    proof (cases "\<exists>p. v = PDict p")
      case True
      with Some show ?thesis
        by (auto simp: read_property_dict dict_get_def stored_or_default_def)
    next
      case False
      with assms Some have "\<not> truthy v"
        by (cases v) (simp_all add: properties_readable_def)
      with Some False show ?thesis
        by (cases v) (simp_all add: read_property_falsy dict_get_def stored_or_default_def)
    qed
  qed
  show ?thesis
    by (simp add: variant_init_defs init accessor_defs key_defs rd)
qed

theorem accessors_stored_or_default_witness:
  "properties_readable
     [(''id'', PStr ''o1''), (''properties'', PDict [(''state'', PStr ''up'')])] \<and>
   QbusMqttShutterState_init
     (PDict [(''id'', PStr ''o1''), (''properties'', PDict [(''state'', PStr ''up'')])])
     PNone PNone =
   Inr \<lparr>id_attr = PStr ''o1'', type_attr = PStr '''', action = PNone,
        properties = PDict [(''state'', PStr ''up'')]\<rparr> \<and>
   read_state \<lparr>id_attr = PStr ''o1'', type_attr = PStr '''', action = PNone,
        properties = PDict [(''state'', PStr ''up'')]\<rparr> = Inr (PStr ''up'') \<and>
   read_position \<lparr>id_attr = PStr ''o1'', type_attr = PStr '''', action = PNone,
        properties = PDict [(''state'', PStr ''up'')]\<rparr> = Inr PNone"
proof -
  have wf: "properties_readable
      [(''id'', PStr ''o1''), (''properties'', PDict [(''state'', PStr ''up'')])]"
    by (simp add: properties_readable_def)
  from accessors_stored_or_default [OF wf, of PNone PNone] wf show ?thesis
    by (simp add: variant_init_defs init_dict dict_get_def stored_or_default_def)
qed

section \<open>Deserialization\<close>



lemma loads_five: "json_loads ''5'' = Inr (PInt 5)"
  by code_simp

lemma loads_empty_array: "json_loads ''[]'' = Inr (PList [])"
  by code_simp

lemma deserialize_None:
  "deserialize cls None =
     ([LogWarning (''Empty state payload for '' @ cls_name cls)], Inr None)"
  by (simp add: deserialize_def)


lemma deserialize_loaded:
  "json_loads s = Inr data \<Longrightarrow>
   deserialize cls (Some s) =
     (case cls_call cls data of Inl e \<Rightarrow> ([], Inl e) | Inr obj \<Rightarrow> ([], Inr (Some obj)))"
  by (simp add: deserialize_def)



text \<open>
  Claim C1 fails on the code. A payload that is valid JSON but not an object is decoded,
  and the class is called with the decoded value outside the \<^verbatim>\<open>try\<close>: the
  constructor's \<^verbatim>\<open>data.get\<close> raises \<^verbatim>\<open>AttributeError\<close>, which leaves
  \<^verbatim>\<open>deserialize\<close>. The payloads \<^verbatim>\<open>5\<close> and \<^verbatim>\<open>[]\<close> show it.
\<close>

theorem deserialize_non_object_raises:
  "deserialize QbusMqttState_cls (Some ''5'') = ([], Inl AttributeError) \<and>
   deserialize QbusMqttState_cls (Some ''[]'') = ([], Inl AttributeError) \<and>
   deserialize QbusMqttOnOffState_cls (Some ''5'') = ([], Inl AttributeError)"
  by (simp add: deserialize_loaded [OF loads_five] deserialize_loaded [OF loads_empty_array]
      cls_defs variant_init_defs init_not_mapping)

section \<open>Discovery\<close>

text \<open>
  Claim C4. \<^verbatim>\<open>parse_discovery\<close> returns \<^verbatim>\<open>None\<close> when \<^verbatim>\<open>deserialize\<close> returns
  \<^verbatim>\<open>None\<close>; it returns \<^verbatim>\<open>None\<close> and logs an error when the Discovery has no
  devices; it returns the Discovery as it is when there is at least one device.
\<close>

theorem parse_discovery_results:
  "(deserialize cls p = (logs, Inr None) \<longrightarrow>
      parse_discovery cls devs p = (logs, Inr None)) \<and>
   (deserialize cls p = (logs, Inr (Some d)) \<and> devs d = [] \<longrightarrow>
      parse_discovery cls devs p =
        (logs @ [LogError (''Incomplete discovery payload: '' @
                   (case p of None \<Rightarrow> ''None'' | Some text \<Rightarrow> text))], Inr None)) \<and>
   (deserialize cls p = (logs, Inr (Some d)) \<and> devs d \<noteq> [] \<longrightarrow>
      parse_discovery cls devs p = (logs, Inr (Some d)))"
  by (simp add: parse_discovery_def)

lemma loads_no_devices: \<open>json_loads ''{"devices": []}'' = Inr (PDict [(''devices'', PList [])])\<close>
  by code_simp

lemma loads_one_device:
  \<open>json_loads ''{"devices": [{"id":"d1"}]}'' =
     Inr (PDict [(''devices'', PList [PDict [(''id'', PStr ''d1'')]])])\<close>
  by code_simp

theorem parse_discovery_results_witness:
  \<open>parse_discovery QbusDiscovery_cls devices None =
     ([LogWarning ''Empty state payload for QbusDiscovery''], Inr None) \<and>
   parse_discovery QbusDiscovery_cls devices (Some ''{"devices": []}'') =
     ([LogError ''Incomplete discovery payload: {"devices": []}''], Inr None) \<and>
   parse_discovery QbusDiscovery_cls devices (Some ''{"devices": [{"id":"d1"}]}'') =
     ([], Inr (Some \<lparr>devices = [PDict [(''id'', PStr ''d1'')]]\<rparr>))\<close>
proof -
  have none: "deserialize QbusDiscovery_cls None =
      ([LogWarning ''Empty state payload for QbusDiscovery''], Inr None)"
    by (simp add: deserialize_None QbusDiscovery_cls_def)
  have empty: \<open>deserialize QbusDiscovery_cls (Some ''{"devices": []}'') =
      ([], Inr (Some \<lparr>devices = []\<rparr>))\<close>
    by (simp add: deserialize_loaded [OF loads_no_devices] QbusDiscovery_cls_def dict_get_def)
  have one: \<open>deserialize QbusDiscovery_cls (Some ''{"devices": [{"id":"d1"}]}'') =
      ([], Inr (Some \<lparr>devices = [PDict [(''id'', PStr ''d1'')]]\<rparr>))\<close>
    by (simp add: deserialize_loaded [OF loads_one_device] QbusDiscovery_cls_def dict_get_def)
  from parse_discovery_results [where cls = QbusDiscovery_cls and p = None and devs = devices] none
  have 1: "parse_discovery QbusDiscovery_cls devices None =
      ([LogWarning ''Empty state payload for QbusDiscovery''], Inr None)"
    by simp
  from parse_discovery_results
    [where cls = QbusDiscovery_cls and p = \<open>Some ''{"devices": []}''\<close> and logs = "[]"
       and d = "\<lparr>devices = []\<rparr>" and devs = devices] empty
  have 2: \<open>parse_discovery QbusDiscovery_cls devices (Some ''{"devices": []}'') =
      ([LogError ''Incomplete discovery payload: {"devices": []}''], Inr None)\<close>
    by simp
  from parse_discovery_results
    [where cls = QbusDiscovery_cls and p = \<open>Some ''{"devices": [{"id":"d1"}]}''\<close>
       and logs = "[]" and d = "\<lparr>devices = [PDict [(''id'', PStr ''d1'')]]\<rparr>"
       and devs = devices] one
  have 3: \<open>parse_discovery QbusDiscovery_cls devices (Some ''{"devices": [{"id":"d1"}]}'') =
      ([], Inr (Some \<lparr>devices = [PDict [(''id'', PStr ''d1'')]]\<rparr>))\<close>
    by simp
  from 1 2 3 show ?thesis by simp
qed

section \<open>Serialization of a state\<close>

lemma json_dumps_default:
  "IgnoreNoneJsonEncoder_default obj = Inr obj' \<Longrightarrow> json_dumps obj = json_dumps obj'"
  by (cases obj) (auto simp: IgnoreNoneJsonEncoder_default_def)

lemma serialize_state_obj:
  "serialize (state_obj s) =
     json_dumps (PDict (filter (\<lambda>(k, v). v \<noteq> PNone)
       [(''id'', id_attr s), (''type'', type_attr s),
        (''action'', action s), (''properties'', properties s)]))"
  by (rule trans [OF serialize_def json_dumps_default])
     (simp add: IgnoreNoneJsonEncoder_default_def state_obj_def)

lemma json_value_attrs:
  assumes "json_value (id_attr s)" "json_value (type_attr s)"
    "json_value (action s)" "json_value (properties s)"
  shows "json_value (PDict (filter (\<lambda>(k, v). v \<noteq> PNone)
       [(''id'', id_attr s), (''type'', type_attr s),
        (''action'', action s), (''properties'', properties s)]))"
  using assms by simp

lemma loads_serialize_state:
  assumes "json_value (id_attr s)" "json_value (type_attr s)"
    "json_value (action s)" "json_value (properties s)"
  shows "json_loads (serialize (state_obj s)) =
     Inr (PDict (filter (\<lambda>(k, v). v \<noteq> PNone)
       [(''id'', id_attr s), (''type'', type_attr s),
        (''action'', action s), (''properties'', properties s)]))"
  unfolding serialize_state_obj
  by (rule json_loads_dumps) (rule json_value_attrs [OF assms])

lemma serialize_bare:
  \<open>serialize (state_obj \<lparr>id_attr = PStr i, type_attr = PStr t, action = PNone,
                          properties = PNone\<rparr>) =
     ''{"id": '' @ encode_basestring_ascii i @ '', "type": '' @ encode_basestring_ascii t @ ''}''\<close>
  by (simp add: serialize_state_obj encode_basestring_ascii_def escape_char_def)

text \<open>
  Claim C6. For every device id \<open>d\<close> and prefix \<open>p\<close> the activation request has the
  topic \<open>p/d/setState\<close> and, as payload, the serialization of a state with type
  \<^verbatim>\<open>action\<close>, action \<^verbatim>\<open>activate\<close> and the one property \<^verbatim>\<open>authKey\<close> =
  \<^verbatim>\<open>ubielite\<close>. For the device \<^verbatim>\<open>D1\<close> and the default prefix the topic is
  \<^verbatim>\<open>cloudapp/QBUSMQTTGW/D1/setState\<close>, and the payload decodes to the object with
  these four members.
\<close>

theorem device_activate_request:
  \<open>create_device_activate_request \<lparr>device_id = d\<rparr> p =
     Inr \<lparr>topic = p @ ''/'' @ d @ ''/setState'',
          payload = serialize (state_obj
            \<lparr>id_attr = PStr d, type_attr = PStr ''action'', action = PStr ''activate'',
             properties = PDict [(''authKey'', PStr ''ubielite'')]\<rparr>)\<rparr> \<and>
   create_device_activate_request \<lparr>device_id = ''D1''\<rparr> TOPIC_PREFIX =
     Inr \<lparr>topic = ''cloudapp/QBUSMQTTGW/D1/setState'',
          payload = ''{"id": "D1", "type": "action", "action": "activate", "properties": {"authKey": "ubielite"}}''\<rparr> \<and>
   json_loads ''{"id": "D1", "type": "action", "action": "activate", "properties": {"authKey": "ubielite"}}'' =
     Inr (PDict [(''id'', PStr ''D1''), (''type'', PStr ''action''), (''action'', PStr ''activate''),
                 (''properties'', PDict [(''authKey'', PStr ''ubielite'')])])\<close>
proof -
  have req: "create_device_activate_request \<lparr>device_id = d\<rparr> p =
     Inr \<lparr>topic = p @ ''/'' @ d @ ''/setState'',
          payload = serialize (state_obj
            \<lparr>id_attr = PStr d, type_attr = PStr ''action'', action = PStr ''activate'',
             properties = PDict [(''authKey'', PStr ''ubielite'')]\<rparr>)\<rparr>" for d p
    by (simp add: create_device_activate_request_def init_none write_property_def
        get_device_command_topic_def StateType_ACTION_def StateAction_ACTIVATE_def
        KEY_PROPERTIES_AUTHKEY_def)
  have enc: \<open>serialize (state_obj
      \<lparr>id_attr = PStr ''D1'', type_attr = PStr ''action'', action = PStr ''activate'',
       properties = PDict [(''authKey'', PStr ''ubielite'')]\<rparr>) =
     ''{"id": "D1", "type": "action", "action": "activate", "properties": {"authKey": "ubielite"}}''\<close>
    by (simp add: serialize_state_obj encode_basestring_ascii_def escape_char_def)
  have dec: \<open>json_loads ''{"id": "D1", "type": "action", "action": "activate", "properties": {"authKey": "ubielite"}}'' =
     Inr (PDict [(''id'', PStr ''D1''), (''type'', PStr ''action''), (''action'', PStr ''activate''),
                 (''properties'', PDict [(''authKey'', PStr ''ubielite'')])])\<close>
    by code_simp
  show ?thesis
    by (simp only: req enc dec TOPIC_PREFIX_def) simp
qed

text \<open>
  Claim C2 fails on the code. The encoder drops the attributes of the state object that
  are \<^verbatim>\<open>None\<close>, but it encodes the \<^verbatim>\<open>properties\<close> dictionary itself member by
  member, so a \<^verbatim>\<open>None\<close> stored in the map is written as \<^verbatim>\<open>null\<close>. A state with
  the properties \<^verbatim>\<open>{"value": None}\<close> shows it: its encoding holds a \<^verbatim>\<open>null\<close>.
\<close>

theorem serialize_writes_null_in_properties:
  \<open>serialize (state_obj \<lparr>id_attr = PStr ''o1'', type_attr = PStr ''state'', action = PNone,
                          properties = PDict [(''value'', PNone)]\<rparr>) =
     ''{"id": "o1", "type": "state", "properties": {"value": null}}'' \<and>
   json_loads ''{"id": "o1", "type": "state", "properties": {"value": null}}'' =
     Inr (PDict [(''id'', PStr ''o1''), (''type'', PStr ''state''),
                 (''properties'', PDict [(''value'', PNone)])]) \<and>
   has_null (PDict [(''id'', PStr ''o1''), (''type'', PStr ''state''),
                    (''properties'', PDict [(''value'', PNone)])])\<close>
proof -
  have enc: \<open>serialize (state_obj \<lparr>id_attr = PStr ''o1'', type_attr = PStr ''state'',
        action = PNone, properties = PDict [(''value'', PNone)]\<rparr>) =
     ''{"id": "o1", "type": "state", "properties": {"value": null}}''\<close>
    by (simp add: serialize_state_obj encode_basestring_ascii_def escape_char_def)
  have dec: \<open>json_loads ''{"id": "o1", "type": "state", "properties": {"value": null}}'' =
     Inr (PDict [(''id'', PStr ''o1''), (''type'', PStr ''state''),
                 (''properties'', PDict [(''value'', PNone)])])\<close>
    by code_simp
  show ?thesis
    by (simp only: enc dec) simp
qed

section \<open>Round trip\<close>

lemma init_of_encoded_attrs:
  "QbusMqttState_init
     (PDict (filter (\<lambda>(k, v). v \<noteq> PNone)
        [(''id'', id_attr s), (''type'', type_attr s),
         (''action'', action s), (''properties'', properties s)]))
     PNone PNone PNone =
   Inr (s\<lparr>id_attr := (if id_attr s = PNone then PStr '''' else id_attr s),
          type_attr := (if type_attr s = PNone then PStr '''' else type_attr s)\<rparr>)"
  by (cases s) (simp add: init_dict dict_get_def)

text \<open>
  Claim C5. For every state whose attributes are JSON values (numbers, strings, lists
  and nested maps), serializing it and deserializing the output into the base class or
  any variant gives the state back: \<^verbatim>\<open>action\<close> and \<^verbatim>\<open>properties\<close> are reproduced
  exactly, and so are \<^verbatim>\<open>id\<close> and \<^verbatim>\<open>type\<close> when they are set; an \<^verbatim>\<open>id\<close> or
  \<^verbatim>\<open>type\<close> that is \<^verbatim>\<open>None\<close> comes back as the empty string. Nothing is logged.
\<close>

theorem serialize_deserialize_roundtrip:
  assumes "json_value (id_attr s)" "json_value (type_attr s)"
    "json_value (action s)" "json_value (properties s)"
    and "cls \<in> {QbusMqttState_cls, QbusMqttOnOffState_cls, QbusMqttAnalogState_cls,
                QbusMqttShutterState_cls, QbusMqttThermoState_cls}"
  shows "deserialize cls (Some (serialize (state_obj s))) =
     ([], Inr (Some (s\<lparr>id_attr := (if id_attr s = PNone then PStr '''' else id_attr s),
                      type_attr := (if type_attr s = PNone then PStr '''' else type_attr s)\<rparr>)))"
proof -
  let ?doc = "filter (\<lambda>(k, v). v \<noteq> PNone)
                [(''id'', id_attr s), (''type'', type_attr s),
                 (''action'', action s), (''properties'', properties s)]"
  have call: "cls_call cls data = QbusMqttState_init data PNone PNone PNone" for data
    using assms(5) by (auto simp: cls_defs variant_init_defs)
  have "deserialize cls (Some (serialize (state_obj s))) =
      (case cls_call cls (PDict ?doc) of
         Inl e \<Rightarrow> ([], Inl e) | Inr obj \<Rightarrow> ([], Inr (Some obj)))"
    by (rule deserialize_loaded [OF loads_serialize_state [OF assms(1-4)]])
  also have "cls_call cls (PDict ?doc) =
      Inr (s\<lparr>id_attr := (if id_attr s = PNone then PStr '''' else id_attr s),
             type_attr := (if type_attr s = PNone then PStr '''' else type_attr s)\<rparr>)"
    by (simp only: call init_of_encoded_attrs)
  finally show ?thesis
    by (simp only: sum.case)
qed

theorem serialize_deserialize_roundtrip_witness:
  "json_value (PStr ''o7'') \<and> json_value (PStr ''state'') \<and> json_value (PStr ''on'') \<and>
   json_value (PDict [(''value'', PInt 55), (''state'', PStr ''up''),
                      (''nested'', PDict [(''a'', PList [PInt (- 3), PBool True])])]) \<and>
   deserialize QbusMqttAnalogState_cls
     (Some (serialize (state_obj
        \<lparr>id_attr = PStr ''o7'', type_attr = PStr ''state'', action = PStr ''on'',
         properties = PDict [(''value'', PInt 55), (''state'', PStr ''up''),
                             (''nested'', PDict [(''a'', PList [PInt (- 3), PBool True])])]\<rparr>))) =
   ([], Inr (Some
        \<lparr>id_attr = PStr ''o7'', type_attr = PStr ''state'', action = PStr ''on'',
         properties = PDict [(''value'', PInt 55), (''state'', PStr ''up''),
                             (''nested'', PDict [(''a'', PList [PInt (- 3), PBool True])])]\<rparr>))"
  using serialize_deserialize_roundtrip
    [of "\<lparr>id_attr = PStr ''o7'', type_attr = PStr ''state'', action = PStr ''on'',
         properties = PDict [(''value'', PInt 55), (''state'', PStr ''up''),
                             (''nested'', PDict [(''a'', PList [PInt (- 3), PBool True])])]\<rparr>"
        QbusMqttAnalogState_cls]
  by simp

end
